theory Spec2Isabelle
  imports Complex_Main
begin

section \<open>JavaScript numbers\<close>

text \<open>
  The analyzer (class \<open>PriceAnalyzer\<close> of \<open>src/analysis/llmAnalyzer.js\<close>) computes with
  JavaScript numbers. Where every intermediate value of a function is finite for finite
  inputs, a number is modelled by a \<open>real\<close> (exact arithmetic: no rounding, no overflow).
  Where the function's own arithmetic can leave the finite numbers (a division whose
  divisor can be zero), a number is a \<open>jsnum\<close>: a finite real, one of the two infinities,
  or NaN, with the IEEE 754 rules for the special values. The zero of \<open>jsnum\<close> is the
  positive zero; the negative zero is not modelled.
\<close>

datatype jsnum = Fin real | PInf | NInf | NaN

instantiation jsnum :: "{zero, one, plus, uminus, minus, times, inverse, abs, ord}"
begin

definition zero_jsnum :: jsnum where
  "zero_jsnum = Fin 0"

definition one_jsnum :: jsnum where
  "one_jsnum = Fin 1"

fun plus_jsnum :: "jsnum \<Rightarrow> jsnum \<Rightarrow> jsnum" where
  "plus_jsnum NaN y = NaN"
| "plus_jsnum x NaN = NaN"
| "plus_jsnum PInf NInf = NaN"
| "plus_jsnum NInf PInf = NaN"
| "plus_jsnum PInf y = PInf"
| "plus_jsnum x PInf = PInf"
| "plus_jsnum NInf y = NInf"
| "plus_jsnum x NInf = NInf"
| "plus_jsnum (Fin a) (Fin b) = Fin (a + b)"

fun uminus_jsnum :: "jsnum \<Rightarrow> jsnum" where
  "uminus_jsnum (Fin a) = Fin (- a)"
| "uminus_jsnum PInf = NInf"
| "uminus_jsnum NInf = PInf"
| "uminus_jsnum NaN = NaN"

definition minus_jsnum :: "jsnum \<Rightarrow> jsnum \<Rightarrow> jsnum" where
  "minus_jsnum x y = x + (- y)"

fun times_jsnum :: "jsnum \<Rightarrow> jsnum \<Rightarrow> jsnum" where
  "times_jsnum NaN y = NaN"
| "times_jsnum x NaN = NaN"
| "times_jsnum (Fin a) (Fin b) = Fin (a * b)"
| "times_jsnum (Fin a) PInf = (if 0 < a then PInf else if a < 0 then NInf else NaN)"
| "times_jsnum (Fin a) NInf = (if 0 < a then NInf else if a < 0 then PInf else NaN)"
| "times_jsnum PInf (Fin b) = (if 0 < b then PInf else if b < 0 then NInf else NaN)"
| "times_jsnum NInf (Fin b) = (if 0 < b then NInf else if b < 0 then PInf else NaN)"
| "times_jsnum PInf PInf = PInf"
| "times_jsnum PInf NInf = NInf"
| "times_jsnum NInf PInf = NInf"
| "times_jsnum NInf NInf = PInf"

fun divide_jsnum :: "jsnum \<Rightarrow> jsnum \<Rightarrow> jsnum" where
  "divide_jsnum NaN y = NaN"
| "divide_jsnum x NaN = NaN"
| "divide_jsnum (Fin a) (Fin b) =
     (if b \<noteq> 0 then Fin (a / b)
      else if 0 < a then PInf else if a < 0 then NInf else NaN)"
| "divide_jsnum (Fin a) PInf = Fin 0"
| "divide_jsnum (Fin a) NInf = Fin 0"
| "divide_jsnum PInf (Fin b) = (if 0 \<le> b then PInf else NInf)"
| "divide_jsnum NInf (Fin b) = (if 0 \<le> b then NInf else PInf)"
| "divide_jsnum PInf PInf = NaN"
| "divide_jsnum PInf NInf = NaN"
| "divide_jsnum NInf PInf = NaN"
| "divide_jsnum NInf NInf = NaN"

fun inverse_jsnum :: "jsnum \<Rightarrow> jsnum" where
  "inverse_jsnum (Fin a) = (if a \<noteq> 0 then Fin (1 / a) else PInf)"
| "inverse_jsnum PInf = Fin 0"
| "inverse_jsnum NInf = Fin 0"
| "inverse_jsnum NaN = NaN"

fun abs_jsnum :: "jsnum \<Rightarrow> jsnum" where
  "abs_jsnum (Fin a) = Fin \<bar>a\<bar>"
| "abs_jsnum PInf = PInf"
| "abs_jsnum NInf = PInf"
| "abs_jsnum NaN = NaN"

fun less_jsnum :: "jsnum \<Rightarrow> jsnum \<Rightarrow> bool" where
  "less_jsnum NaN y = False"
| "less_jsnum x NaN = False"
| "less_jsnum (Fin a) (Fin b) = (a < b)"
| "less_jsnum x NInf = False"
| "less_jsnum PInf y = False"
| "less_jsnum (Fin a) PInf = True"
| "less_jsnum NInf (Fin b) = True"
| "less_jsnum NInf PInf = True"

fun less_eq_jsnum :: "jsnum \<Rightarrow> jsnum \<Rightarrow> bool" where
  "less_eq_jsnum NaN y = False"
| "less_eq_jsnum x NaN = False"
| "less_eq_jsnum (Fin a) (Fin b) = (a \<le> b)"
| "less_eq_jsnum NInf y = True"
| "less_eq_jsnum x PInf = True"
| "less_eq_jsnum (Fin a) NInf = False"
| "less_eq_jsnum PInf (Fin b) = False"
| "less_eq_jsnum PInf NInf = False"

instance ..

end

text \<open>\<open>Math.max\<close> of two numbers: NaN when either is NaN, else the larger.\<close>

fun Math_max2 :: "jsnum \<Rightarrow> jsnum \<Rightarrow> jsnum" where
  "Math_max2 NaN y = NaN"
| "Math_max2 x NaN = NaN"
| "Math_max2 x y = (if x < y then y else x)"

text \<open>A JavaScript number counted up from zero in steps of one, in any number type.\<close>

definition num_of_nat :: "nat \<Rightarrow> 'a::{zero, one, plus}" where
  "num_of_nat n = ((\<lambda>x. x + 1) ^^ n) 0"

section \<open>The recommendation engine\<close>

text \<open>
  \<open>getRecommendation(targetPrice, currentPrice, confidenceScore)\<close>. The reasoning text is
  a template filled with \<open>priceChange.toFixed(1)\<close>; the model keeps the template and the
  number it is filled with:
  \<^item> \<open>CloseToCurrent\<close>: 'Target price close to current price'
  \<^item> \<open>UpsidePotential p\<close>: 'Target price indicates p% upside potential'
  \<^item> \<open>StrongUpside p\<close>: 'Strong upside potential of p%'
  \<^item> \<open>DownsideRisk p\<close>: 'Target price indicates p% downside risk', p an absolute value
  \<^item> \<open>SignificantDownside p\<close>: 'Significant downside risk of p%', p an absolute value
\<close>

datatype reasoning =
    CloseToCurrent
  | UpsidePotential jsnum
  | StrongUpside jsnum
  | DownsideRisk jsnum
  | SignificantDownside jsnum

record Recommendation =
  action :: string
  reasoning :: reasoning
  expectedReturn :: jsnum

definition getRecommendation :: "jsnum \<Rightarrow> jsnum \<Rightarrow> jsnum \<Rightarrow> Recommendation" where
  "getRecommendation targetPrice currentPrice confidenceScore =
     (let priceChange = (targetPrice - currentPrice) / currentPrice * Fin 100 in
      if priceChange > Fin 10 \<and> confidenceScore \<ge> Fin 60 then
        \<lparr>action = ''BUY'', reasoning = UpsidePotential priceChange,
         expectedReturn = priceChange\<rparr>
      else if priceChange > Fin 20 \<and> confidenceScore \<ge> Fin 40 then
        \<lparr>action = ''STRONG BUY'', reasoning = StrongUpside priceChange,
         expectedReturn = priceChange\<rparr>
      else if priceChange < Fin (- 10) \<and> confidenceScore \<ge> Fin 60 then
        \<lparr>action = ''SELL'', reasoning = DownsideRisk \<bar>priceChange\<bar>,
         expectedReturn = priceChange\<rparr>
      else if priceChange < Fin (- 20) \<and> confidenceScore \<ge> Fin 40 then
        \<lparr>action = ''STRONG SELL'', reasoning = SignificantDownside \<bar>priceChange\<bar>,
         expectedReturn = priceChange\<rparr>
      else
        \<lparr>action = ''HOLD'', reasoning = CloseToCurrent, expectedReturn = priceChange\<rparr>)"

text \<open>The percentage change the specification calls delta.\<close>

definition delta_percent :: "jsnum \<Rightarrow> jsnum \<Rightarrow> jsnum" where
  "delta_percent target current = (target - current) / current * Fin 100"

text \<open>
  The page \<open>src/ui/src/pages/StockAnalysis.js\<close> colours the recommendation it receives
  from the analyzer (\<open>getRecommendationColor\<close>, a \<open>switch\<close> on the action).
\<close>

definition getRecommendationColor :: "Recommendation \<Rightarrow> string" where
  "getRecommendationColor recommendation =
     (if action recommendation = ''STRONG_BUY'' \<or> action recommendation = ''BUY''
        then ''success''
      else if action recommendation = ''STRONG_SELL'' \<or> action recommendation = ''SELL''
        then ''error''
      else ''warning'')"

section \<open>The data model\<close>

text \<open>
  A bar of the price series as \<open>getStockDataFromDB\<close> builds it; the field \<open>open\<close> of the
  source is \<open>open_price\<close> here. The indicator set, the Fibonacci levels, the
  support and resistance levels, the trend and the volatility are the objects the
  analyzer passes around in \<open>calculations\<close>; a value that may be \<open>null\<close> is an option.
\<close>

record PriceBar =
  date :: string
  open_price :: real
  high :: real
  low :: real
  close :: real
  volume :: real

record MACDEntry =
  MACD :: real
  signal :: real
  histogram :: real

record BollingerEntry =
  upperBand :: real
  middleBand :: real
  lowerBand :: real
  pb :: real

record TechnicalIndicators =
  sma20 :: "real list option"
  sma50 :: "real list option"
  sma200 :: "real list option"
  ema12 :: "real list option"
  ema26 :: "real list option"
  rsi :: "real list option"
  macd :: "MACDEntry list option"
  bollinger :: "BollingerEntry list option"
  adx :: "jsnum list option"

record FibonacciLevels =
  fib_high :: real
  fib_low :: real
  levels :: "string \<rightharpoonup> real"

record Level =
  price :: real
  touches :: nat
  index :: nat

record SupportResistance =
  support :: "Level list"
  resistance :: "Level list"

record MovingAverages =
  short :: real
  medium :: real
  long :: real

record TrendState =
  trend :: string
  movingAverages :: "MovingAverages option"

record VolatilityState =
  standardDeviation :: real
  annualizedVolatility :: real
  currentLevel :: string

record Calculations =
  technical :: "TechnicalIndicators option"
  fibonacci :: "FibonacciLevels option"
  supportResistance :: "SupportResistance option"
  trends :: "TrendState option"
  volatility :: "VolatilityState option"

section \<open>The confidence scorer\<close>

text \<open>
  \<open>calculateConfidenceScore(calculations, stockData)\<close>: the variable \<open>score\<close> is
  rebound at each adjustment; a string is truthy when it is not empty.
\<close>

record ConfidenceScore =
  score :: int
  level :: string

definition calculateConfidenceScore :: "Calculations \<Rightarrow> PriceBar list \<Rightarrow> ConfidenceScore" where
  "calculateConfidenceScore calculations stockData =
     (let score = 50;
          score =
            (case technical calculations of
               None \<Rightarrow> score - 10
             | Some t \<Rightarrow>
                 (case rsi t of
                    None \<Rightarrow> score - 10
                  | Some rs \<Rightarrow>
                      if length rs > 0 then
                        (if last rs \<ge> 30 \<and> last rs \<le> 70 then score + 10 else score)
                      else score - 10));
          score =
            (case trends calculations of
               None \<Rightarrow> score - 15
             | Some tr \<Rightarrow>
                 if trend tr \<noteq> [] \<and> trend tr \<noteq> ''neutral'' then score + 15
                 else score - 15);
          score =
            (case volatility calculations of
               None \<Rightarrow> score - 10
             | Some v \<Rightarrow>
                 if currentLevel v \<noteq> [] then
                   (if currentLevel v = ''low'' then score + 10
                    else if currentLevel v = ''medium'' then score + 5
                    else score)
                 else score - 10);
          score =
            (case supportResistance calculations of
               None \<Rightarrow> score - 10
             | Some sr \<Rightarrow>
                 if length (support sr) \<ge> 2 \<or> length (resistance sr) \<ge> 2 then score + 10
                 else score - 10);
          score =
            (if length stockData \<ge> 200 then score + 15
             else if length stockData \<ge> 100 then score + 5
             else if length stockData \<ge> 50 then score
             else if length stockData > 0 then score - 20
             else 0)
      in \<lparr>score = min 100 (max 0 score),
          level = (if score \<ge> 80 then ''high'' else if score \<ge> 60 then ''medium'' else ''low'')\<rparr>)"

section \<open>The level detector: Fibonacci retracement\<close>

text \<open>A bar whose four prices are all \<open>c\<close>, for concrete series.\<close>

definition bar_at :: "real \<Rightarrow> PriceBar" where
  "bar_at c = \<lparr>date = [], open_price = c, high = c, low = c, close = c, volume = 0\<rparr>"

text \<open>
  \<open>calculateFibonacciLevels(stockData)\<close>. \<open>Math.max(...prices)\<close> and
  \<open>Math.min(...prices)\<close> are taken of a list of at least two prices.
\<close>

definition calculateFibonacciLevels :: "PriceBar list \<Rightarrow> FibonacciLevels" where
  "calculateFibonacciLevels stockData =
     (if length stockData < 2 then
        \<lparr>fib_high = 0, fib_low = 0,
         levels = [''0%'' \<mapsto> 0, ''23.6%'' \<mapsto> 0, ''38.2%'' \<mapsto> 0, ''50%'' \<mapsto> 0,
                   ''61.8%'' \<mapsto> 0, ''100%'' \<mapsto> 0]\<rparr>
      else
        (let prices = map close stockData;
             high = Max (set prices);
             low = Min (set prices);
             diff = high - low
         in \<lparr>fib_high = high, fib_low = low,
             levels = [''0%'' \<mapsto> high,
                       ''23.6%'' \<mapsto> high - (diff * 0.236),
                       ''38.2%'' \<mapsto> high - (diff * 0.382),
                       ''50%'' \<mapsto> high - (diff * 0.5),
                       ''61.8%'' \<mapsto> high - (diff * 0.618),
                       ''100%'' \<mapsto> low]\<rparr>))"

text \<open>The retracement level of ratio \<open>r\<close> between a high and a low, as the specification words it.\<close>

definition fib_level :: "real \<Rightarrow> real \<Rightarrow> real \<Rightarrow> real" where
  "fib_level h l r = h - r * (h - l)"

section \<open>The level detector: support and resistance\<close>

text \<open>
  \<open>findLevels(data, minTouches)\<close>. The inner loop over \<open>j\<close> counts the touches
  (\<open>count_touches\<close>, started at \<open>j = 0\<close> with one touch); the outer loop over \<open>i\<close> from 2
  collects the levels (\<open>findLevels_loop\<close>, the list \<open>levels\<close> of the source is \<open>found\<close>).
  \<open>Array.prototype.sort\<close> is stable; with the comparator \<open>b.touches - a.touches\<close> it
  is a stable sort on the negated touch count.
\<close>

definition tolerance :: real where
  "tolerance = 0.02"

function count_touches :: "real list \<Rightarrow> nat \<Rightarrow> real \<Rightarrow> nat \<Rightarrow> nat \<Rightarrow> nat" where
  "count_touches data i current j n =
     (if j < length data then
        count_touches data i current (j + 1)
          (if i \<noteq> j \<and> \<bar>data ! j - current\<bar> < current * tolerance then n + 1 else n)
      else n)"
  by pat_completeness auto
termination
  by (relation "measure (\<lambda>(data, i, current, j, n). length data - j)") auto

function findLevels_loop :: "real list \<Rightarrow> nat \<Rightarrow> nat \<Rightarrow> Level list \<Rightarrow> Level list" where
  "findLevels_loop data minTouches i found =
     (if i < length data - 2 then
        (let current = data ! i;
             isLevel = True;
             isLevel = (if i > 0 \<and> current > data ! (i - 1) * (1 + tolerance)
                        then False else isLevel);
             isLevel = (if i < length data - 1 \<and> current > data ! (i + 1) * (1 + tolerance)
                        then False else isLevel);
             found =
               (if isLevel then
                  (let touches = count_touches data i current 0 1 in
                   if touches \<ge> minTouches
                   then found @ [\<lparr>price = current, touches = touches, index = i\<rparr>]
                   else found)
                else found)
         in findLevels_loop data minTouches (i + 1) found)
      else found)"
  by pat_completeness auto
termination
  by (relation "measure (\<lambda>(data, minTouches, i, found). length data - 2 - i)") auto

declare count_touches.simps [simp del] findLevels_loop.simps [simp del]

definition findLevels :: "real list \<Rightarrow> nat \<Rightarrow> Level list" where
  "findLevels data minTouches =
     (if length data < 5 then []
      else take 5 (sort_key (\<lambda>l. - int (touches l)) (findLevels_loop data minTouches 2 [])))"

definition findSupportResistanceLevels :: "PriceBar list \<Rightarrow> SupportResistance" where
  "findSupportResistanceLevels stockData =
     (if length stockData < 5 then \<lparr>support = [], resistance = []\<rparr>
      else
        (let highs = map high stockData;
             lows = map low stockData;
             supportLevels = findLevels lows 2;
             resistanceLevels = findLevels highs 2
         in \<lparr>support = supportLevels, resistance = resistanceLevels\<rparr>))"

text \<open>
  The heuristic in words: a point is a candidate when it exceeds neither neighbour by
  more than 2%; its touch count is one more than the number of other points whose
  distance to it is below 2% of its value; the kept levels are the candidates between
  the first two and the last two indices with a touch count of at least 2.
\<close>

definition level_candidate :: "real list \<Rightarrow> nat \<Rightarrow> bool" where
  "level_candidate data i \<longleftrightarrow>
     data ! i \<le> data ! (i - 1) * 1.02 \<and> data ! i \<le> data ! (i + 1) * 1.02"

definition touch_count :: "real list \<Rightarrow> nat \<Rightarrow> nat" where
  "touch_count data i =
     1 + length (filter (\<lambda>j. j \<noteq> i \<and> \<bar>data ! j - data ! i\<bar> < data ! i * 0.02)
                   [0..<length data])"

definition kept_levels :: "real list \<Rightarrow> Level list" where
  "kept_levels data =
     map (\<lambda>i. \<lparr>price = data ! i, touches = touch_count data i, index = i\<rparr>)
       (filter (\<lambda>i. level_candidate data i \<and> 2 \<le> touch_count data i)
          [2..<length data - 2])"

definition top_levels :: "Level list \<Rightarrow> Level list" where
  "top_levels ls = take 5 (sort_key (\<lambda>l. - int (touches l)) ls)"

text \<open>
  The heuristic as the specification words it: a candidate is not more than 2% below
  its neighbours, and the touch count is the number of points elsewhere within 2%.
\<close>

definition spec_touch_count :: "real list \<Rightarrow> nat \<Rightarrow> nat" where
  "spec_touch_count data i =
     length (filter (\<lambda>j. j \<noteq> i \<and> \<bar>data ! j - data ! i\<bar> \<le> 0.02 * data ! i)
               [0..<length data])"

definition spec_candidate :: "real list \<Rightarrow> nat \<Rightarrow> bool" where
  "spec_candidate data i \<longleftrightarrow>
     data ! i \<ge> data ! (i - 1) * (1 - 0.02) \<and> data ! i \<ge> data ! (i + 1) * (1 - 0.02)"

section \<open>The volatility classifier\<close>

text \<open>
  \<open>calculateVolatility(stockData, period = 20)\<close>. \<open>slice(-n)\<close> keeps the last \<open>n\<close>
  elements, and all of them when \<open>n\<close> is 0. The closes are finite and positive numbers,
  so that the quotient of two closes and its logarithm are those of the real numbers.
\<close>

definition slice_last :: "nat \<Rightarrow> 'a list \<Rightarrow> 'a list" where
  "slice_last n xs = (if n = 0 then xs else drop (length xs - n) xs)"

definition calculateVolatility :: "PriceBar list \<Rightarrow> nat \<Rightarrow> VolatilityState" where
  "calculateVolatility stockData period =
     (if length stockData < 2 then
        \<lparr>standardDeviation = 0, annualizedVolatility = 0, currentLevel = ''low''\<rparr>
      else
        (let actualPeriod = min period (length stockData);
             closes = map close (slice_last actualPeriod stockData)
         in if length closes < 2 then
              \<lparr>standardDeviation = 0, annualizedVolatility = 0, currentLevel = ''low''\<rparr>
            else
              (let returns = map (\<lambda>i. ln (closes ! i / closes ! (i - 1))) [1..<length closes];
                   mean = foldl (\<lambda>a b. a + b) 0 returns / real (length returns);
                   variance = foldl (\<lambda>a b. a + (b - mean)\<^sup>2) 0 returns / real (length returns);
                   volatility = sqrt variance * sqrt 252
               in \<lparr>standardDeviation = sqrt variance,
                   annualizedVolatility = volatility,
                   currentLevel = (if volatility > 0.25 then ''high''
                                   else if volatility > 0.15 then ''medium'' else ''low'')\<rparr>)))"

text \<open>
  The computation in words: the most recent closes, the log returns between
  consecutive closes, and the standard deviation of a list, once dividing by the number
  of values (population) and once by one less (sample).
\<close>

definition recent_closes :: "nat \<Rightarrow> PriceBar list \<Rightarrow> real list" where
  "recent_closes k stockData =
     map close (drop (length stockData - min k (length stockData)) stockData)"

definition log_returns :: "real list \<Rightarrow> real list" where
  "log_returns cs = map (\<lambda>(a, b). ln (b / a)) (zip cs (tl cs))"

definition mean_of :: "real list \<Rightarrow> real" where
  "mean_of xs = sum_list xs / real (length xs)"

definition population_std :: "real list \<Rightarrow> real" where
  "population_std xs = sqrt (sum_list (map (\<lambda>x. (x - mean_of xs)\<^sup>2) xs) / real (length xs))"

definition sample_std :: "real list \<Rightarrow> real" where
  "sample_std xs = sqrt (sum_list (map (\<lambda>x. (x - mean_of xs)\<^sup>2) xs) / real (length xs - 1))"

definition volatility_tier :: "real \<Rightarrow> string" where
  "volatility_tier v = (if v > 0.25 then ''high'' else if v > 0.15 then ''medium'' else ''low'')"

section \<open>The target price synthesizer\<close>

text \<open>
  What the analyzer can throw: the error of an empty series
  (\<open>new Error('No data available for analysis')\<close>), a \<open>TypeError\<close> for a property read
  on \<open>undefined\<close> or \<open>null\<close>, and the rejection of a database or network call.
\<close>

datatype error = NoDataAvailable | TypeError | ExternalError string

text \<open>
  A candidate \<open>{price, weight, source}\<close> and the result
  \<open>{price, method, rangeLow, rangeHigh, breakdown}\<close> of \<open>calculateTargetPrice\<close>; the two
  \<open>price\<close> fields are \<open>cand_price\<close> and \<open>tp_price\<close>, and the field \<open>method\<close> is
  \<open>tp_method\<close>.
\<close>

record PriceTargetEntry =
  cand_price :: real
  weight :: real
  source :: string

record PriceTarget =
  tp_price :: real
  tp_method :: string
  rangeLow :: real
  rangeHigh :: real
  breakdown :: "PriceTargetEntry list"

text \<open>
  A number is truthy when it is not zero (it is never NaN here);
  \<open>String.prototype.includes\<close> is \<open>str_includes\<close>.
\<close>

definition truthy :: "real \<Rightarrow> bool" where
  "truthy x \<longleftrightarrow> x \<noteq> 0"

fun starts_with :: "string \<Rightarrow> string \<Rightarrow> bool" where
  "starts_with s [] = True"
| "starts_with [] (c # cs) = False"
| "starts_with (x # xs) (c # cs) = (x = c \<and> starts_with xs cs)"

fun str_includes :: "string \<Rightarrow> string \<Rightarrow> bool" where
  "str_includes [] sub = (sub = [])"
| "str_includes (x # xs) sub = (starts_with (x # xs) sub \<or> str_includes xs sub)"

text \<open>
  The list \<open>priceTargets\<close> that \<open>calculateTargetPrice\<close> fills by \<open>push\<close>, in the order of
  the source: Bollinger upper and middle band, Fibonacci level, nearest resistance,
  nearest support, moving average projection.
\<close>

definition priceTargets :: "Calculations \<Rightarrow> PriceTargetEntry list" where
  "priceTargets calculations =
     (case technical calculations of
        None \<Rightarrow> []
      | Some t \<Rightarrow>
          (case bollinger t of
             None \<Rightarrow> []
           | Some bs \<Rightarrow>
               if length bs > 0 then
                 (let bb = last bs in
                  (if truthy (upperBand bb)
                   then [\<lparr>cand_price = upperBand bb, weight = 0.15,
                          source = ''bollinger_upper''\<rparr>]
                   else [])
                  @ (if truthy (middleBand bb)
                     then [\<lparr>cand_price = middleBand bb, weight = 0.10,
                            source = ''bollinger_middle''\<rparr>]
                     else []))
               else []))
     @ (case (fibonacci calculations, trends calculations) of
          (Some f, Some tr) \<Rightarrow>
            if str_includes (trend tr) ''uptrend'' then
              (case levels f ''61.8%'' of
                 Some v \<Rightarrow>
                   if truthy v
                   then [\<lparr>cand_price = v, weight = 0.20, source = ''fibonacci_up''\<rparr>]
                   else []
               | None \<Rightarrow> [])
            else if str_includes (trend tr) ''downtrend'' then
              (case levels f ''38.2%'' of
                 Some v \<Rightarrow>
                   if truthy v
                   then [\<lparr>cand_price = v, weight = 0.20, source = ''fibonacci_down''\<rparr>]
                   else []
               | None \<Rightarrow> [])
            else []
        | _ \<Rightarrow> [])
     @ (case (supportResistance calculations, trends calculations) of
          (Some sr, Some tr) \<Rightarrow>
            if length (resistance sr) > 0 \<and> str_includes (trend tr) ''uptrend'' then
              (let nearestResistance = hd (resistance sr) in
               if truthy (price nearestResistance)
               then [\<lparr>cand_price = price nearestResistance, weight = 0.15,
                      source = ''resistance''\<rparr>]
               else [])
            else []
        | _ \<Rightarrow> [])
     @ (case (supportResistance calculations, trends calculations) of
          (Some sr, Some tr) \<Rightarrow>
            if length (support sr) > 0 \<and> str_includes (trend tr) ''downtrend'' then
              (let nearestSupport = hd (support sr) in
               if truthy (price nearestSupport)
               then [\<lparr>cand_price = price nearestSupport, weight = 0.15,
                      source = ''support''\<rparr>]
               else [])
            else []
        | _ \<Rightarrow> [])
     @ (case trends calculations of
          None \<Rightarrow> []
        | Some tr \<Rightarrow>
            (case movingAverages tr of
               None \<Rightarrow> []
             | Some ma \<Rightarrow>
                 if str_includes (trend tr) ''uptrend'' \<and> truthy (medium ma)
                 then [\<lparr>cand_price = medium ma * 1.05, weight = 0.15,
                        source = ''ma_projection_up''\<rparr>]
                 else if str_includes (trend tr) ''downtrend'' \<and> truthy (medium ma)
                 then [\<lparr>cand_price = medium ma * 0.95, weight = 0.15,
                        source = ''ma_projection_down''\<rparr>]
                 else []))"

text \<open>
  \<open>calculateTargetPrice(calculations, stockData)\<close>, with the sums, products and
  quotients of the real numbers; reading \<open>close\<close> of the last bar of an empty series is a
  \<open>TypeError\<close>.
\<close>

definition calculateTargetPrice :: "Calculations \<Rightarrow> PriceBar list \<Rightarrow> error + PriceTarget" where
  "calculateTargetPrice calculations stockData =
     (if stockData = [] then Inl TypeError
      else
        (let currentPrice = close (last stockData);
             targets = priceTargets calculations
         in if length targets = 0 then
              (let rangeAdjustment =
                     (case volatility calculations of
                        Some v \<Rightarrow>
                          if truthy (annualizedVolatility v)
                          then annualizedVolatility v * currentPrice * 0.5
                          else currentPrice * 0.1
                      | None \<Rightarrow> currentPrice * 0.1)
               in Inr \<lparr>tp_price = currentPrice, tp_method = ''current_price'',
                       rangeLow = currentPrice - rangeAdjustment,
                       rangeHigh = currentPrice + rangeAdjustment,
                       breakdown = []\<rparr>)
            else
              (let totalWeight = foldl (\<lambda>s t. s + weight t) 0 targets;
                   targetPrice =
                     (if totalWeight > 0
                      then foldl (\<lambda>s t. s + cand_price t * weight t) 0 targets / totalWeight
                      else currentPrice);
                   rangeAdjustment =
                     (case volatility calculations of
                        Some v \<Rightarrow>
                          if truthy (annualizedVolatility v)
                          then annualizedVolatility v * targetPrice * 0.5
                          else targetPrice * 0.1
                      | None \<Rightarrow> targetPrice * 0.1)
               in Inr \<lparr>tp_price = targetPrice, tp_method = ''weighted_average'',
                       rangeLow = targetPrice - rangeAdjustment,
                       rangeHigh = targetPrice + rangeAdjustment,
                       breakdown = targets\<rparr>)))"








section \<open>The indicator library: moving average and ADX\<close>

text \<open>
  \<open>calculateSMA(data, period)\<close>, for the reals and for \<open>jsnum\<close>: the value pushed at
  index \<open>i\<close> is the sum of \<open>data.slice(i - period + 1, i + 1)\<close> divided by the period.
  Every call has a period of at least 1.
\<close>

definition calculateSMA :: "'a::{zero, one, plus, inverse} list \<Rightarrow> nat \<Rightarrow> 'a list" where
  "calculateSMA data period =
     map (\<lambda>i. foldl (\<lambda>a b. a + b) 0 (take period (drop (i + 1 - period) data))
               / num_of_nat period)
       [period - 1..<length data]"

text \<open>
  \<open>calculateADX(highs, lows, closes, period = 14)\<close>. An array read out of range is
  \<open>undefined\<close>, which is NaN in arithmetic (\<open>elem\<close>). The three arrays filled by the loop
  are \<open>adx_trueRange\<close>, \<open>adx_plusDM\<close> and \<open>adx_minusDM\<close>; the constants \<open>atr\<close>,
  \<open>plusDI\<close>, \<open>minusDI\<close> and \<open>dx\<close> of the source are \<open>adx_atr\<close>, \<open>adx_plusDI\<close>,
  \<open>adx_minusDI\<close> and \<open>adx_dx\<close>.
\<close>

definition elem :: "jsnum list \<Rightarrow> nat \<Rightarrow> jsnum" where
  "elem xs i = (if i < length xs then xs ! i else NaN)"

definition adx_trueRange :: "jsnum list \<Rightarrow> jsnum list \<Rightarrow> jsnum list \<Rightarrow> jsnum list" where
  "adx_trueRange highs lows closes =
     map (\<lambda>i. let tr1 = \<bar>elem highs i - elem lows i\<bar>;
                   tr2 = \<bar>elem highs i - elem closes (i - 1)\<bar>;
                   tr3 = \<bar>elem lows i - elem closes (i - 1)\<bar>
               in Math_max2 (Math_max2 tr1 tr2) tr3)
       [1..<length highs]"

definition adx_plusDM :: "jsnum list \<Rightarrow> jsnum list \<Rightarrow> jsnum list" where
  "adx_plusDM highs lows =
     map (\<lambda>i. let upMove = elem highs i - elem highs (i - 1);
                   downMove = elem lows (i - 1) - elem lows i
               in if upMove > downMove \<and> upMove > 0 then upMove else 0)
       [1..<length highs]"

definition adx_minusDM :: "jsnum list \<Rightarrow> jsnum list \<Rightarrow> jsnum list" where
  "adx_minusDM highs lows =
     map (\<lambda>i. let upMove = elem highs i - elem highs (i - 1);
                   downMove = elem lows (i - 1) - elem lows i
               in if downMove > upMove \<and> downMove > 0 then downMove else 0)
       [1..<length highs]"

definition adx_atr :: "jsnum list \<Rightarrow> jsnum list \<Rightarrow> jsnum list \<Rightarrow> nat \<Rightarrow> jsnum list" where
  "adx_atr highs lows closes period = calculateSMA (adx_trueRange highs lows closes) period"

definition adx_plusDI :: "jsnum list \<Rightarrow> jsnum list \<Rightarrow> jsnum list \<Rightarrow> nat \<Rightarrow> jsnum list" where
  "adx_plusDI highs lows closes period =
     map (\<lambda>(i, dm). (dm * Fin 100) / elem (adx_atr highs lows closes period) i)
       (enumerate 0 (calculateSMA (adx_plusDM highs lows) period))"

definition adx_minusDI :: "jsnum list \<Rightarrow> jsnum list \<Rightarrow> jsnum list \<Rightarrow> nat \<Rightarrow> jsnum list" where
  "adx_minusDI highs lows closes period =
     map (\<lambda>(i, dm). (dm * Fin 100) / elem (adx_atr highs lows closes period) i)
       (enumerate 0 (calculateSMA (adx_minusDM highs lows) period))"

definition adx_dx :: "jsnum list \<Rightarrow> jsnum list \<Rightarrow> jsnum list \<Rightarrow> nat \<Rightarrow> jsnum list" where
  "adx_dx highs lows closes period =
     map (\<lambda>(i, plus). \<bar>plus - elem (adx_minusDI highs lows closes period) i\<bar>
                        / (plus + elem (adx_minusDI highs lows closes period) i) * Fin 100)
       (enumerate 0 (adx_plusDI highs lows closes period))"

definition calculateADX :: "jsnum list \<Rightarrow> jsnum list \<Rightarrow> jsnum list \<Rightarrow> nat \<Rightarrow> jsnum list" where
  "calculateADX highs lows closes period = calculateSMA (adx_dx highs lows closes period) period"

text \<open>A number that is not negative: a finite one from 0 up, positive infinity, or NaN.\<close>

fun nonneg_or_nan :: "jsnum \<Rightarrow> bool" where
  "nonneg_or_nan (Fin a) = (0 \<le> a)"
| "nonneg_or_nan PInf = True"
| "nonneg_or_nan NaN = True"
| "nonneg_or_nan NInf = False"

section \<open>The indicator set and the trend classifier\<close>

text \<open>
  \<open>EMA\<close>, \<open>RSI\<close>, \<open>MACD\<close> and \<open>BollingerBands\<close> come from the package
  \<open>technicalindicators\<close>, which is not part of the repository: their \<open>calculate\<close>
  functions are parameters, with the fixed options of each call left out (MACD 12, 26, 9;
  Bollinger 20, 2) and \<open>None\<close> for a call that throws. A Bollinger entry is taken with
  the field names the analyzer gives it (\<open>upperBand\<close> for \<open>upper\<close>, and so on).
\<close>

record IndicatorLib =
  EMA_calculate :: "nat \<Rightarrow> real list \<Rightarrow> real list option"
  RSI_calculate :: "nat \<Rightarrow> real list \<Rightarrow> real list option"
  MACD_calculate :: "real list \<Rightarrow> MACDEntry list option"
  BollingerBands_calculate :: "real list \<Rightarrow> BollingerEntry list option"

text \<open>
  \<open>calculateTechnicalIndicators(stockData)\<close>. A field is \<open>null\<close> below its own minimum
  length; a library call that throws makes the whole result \<open>null\<close> (the \<open>catch\<close> of the
  source), which \<open>guarded\<close> spells out for one field.
\<close>

definition guarded :: "bool \<Rightarrow> 'a option \<Rightarrow> ('a option \<Rightarrow> 'b option) \<Rightarrow> 'b option" where
  "guarded enough call k =
     (if enough then (case call of None \<Rightarrow> None | Some v \<Rightarrow> k (Some v)) else k None)"

definition calculateTechnicalIndicators ::
    "IndicatorLib \<Rightarrow> PriceBar list \<Rightarrow> TechnicalIndicators option" where
  "calculateTechnicalIndicators lib stockData =
     (if length stockData < 20 then None
      else
        (let closes = map close stockData;
             highs = map high stockData;
             lows = map low stockData
         in guarded (length stockData \<ge> 12) (EMA_calculate lib 12 closes) (\<lambda>e12.
            guarded (length stockData \<ge> 26) (EMA_calculate lib 26 closes) (\<lambda>e26.
            guarded (length stockData \<ge> 14) (RSI_calculate lib 14 closes) (\<lambda>r.
            guarded (length stockData \<ge> 26) (MACD_calculate lib closes) (\<lambda>m.
            guarded (length stockData \<ge> 20) (BollingerBands_calculate lib closes) (\<lambda>b.
              Some \<lparr>sma20 = (if length stockData \<ge> 20 then Some (calculateSMA closes 20)
                             else None),
                    sma50 = (if length stockData \<ge> 50 then Some (calculateSMA closes 50)
                             else None),
                    sma200 = (if length stockData \<ge> 200 then Some (calculateSMA closes 200)
                              else None),
                    ema12 = e12, ema26 = e26, rsi = r, macd = m, bollinger = b,
                    adx = (if length stockData \<ge> 14
                           then Some (calculateADX (map Fin highs) (map Fin lows)
                                        (map Fin closes) 14)
                           else None)\<rparr>)))))))"

text \<open>\<open>analyzeTrends(stockData)\<close>.\<close>

definition analyzeTrends :: "PriceBar list \<Rightarrow> TrendState" where
  "analyzeTrends stockData =
     (if length stockData < 200 then \<lparr>trend = ''neutral'', movingAverages = None\<rparr>
      else
        (let closes = map close stockData;
             sma20 = calculateSMA closes 20;
             sma50 = calculateSMA closes 50;
             sma200 = calculateSMA closes 200
         in if length sma20 = 0 \<or> length sma50 = 0 \<or> length sma200 = 0
            then \<lparr>trend = ''neutral'', movingAverages = None\<rparr>
            else
              (let ma = \<lparr>short = last sma20, medium = last sma50, long = last sma200\<rparr>;
                   currentPrice = last closes;
                   trend =
                     (if currentPrice > short ma \<and> short ma > medium ma \<and> medium ma > long ma
                      then ''strong_uptrend''
                      else if currentPrice > short ma \<and> short ma > medium ma
                      then ''uptrend''
                      else if currentPrice < short ma \<and> short ma < medium ma
                              \<and> medium ma < long ma
                      then ''strong_downtrend''
                      else if currentPrice < short ma \<and> short ma < medium ma
                      then ''downtrend''
                      else ''neutral'')
               in \<lparr>trend = trend, movingAverages = Some ma\<rparr>)))"

section \<open>The analysis orchestrator\<close>

text \<open>
  \<open>analyzeStock(symbol, database)\<close> reads the series and the latest price from the
  database, may refresh the series over the network, asks for the analyst overview and
  saves the analysis. The outcome of each of these calls is a field of \<open>World\<close>
  (\<open>Inl\<close> for a rejected promise): the first read of the series, the refresh, the read
  after the refresh, the latest price (\<open>null\<close> when there is no row), the overview
  already reduced to the analyst fields, and the save; \<open>today\<close> is the date.
  The result is the value returned or the error thrown, and the analysis handed
  to \<open>saveAnalysisToDatabase\<close>, if any. The fields \<open>price\<close> and \<open>volume\<close> of the latest
  price are \<open>q_price\<close> and \<open>q_volume\<close>; \<open>volume\<close> of the analysis is \<open>a_volume\<close>, and
  its \<open>priceRange\<close> is the pair \<open>priceRangeLow\<close>, \<open>priceRangeHigh\<close>.
\<close>

record Quote =
  q_price :: real
  change :: real
  changePercent :: real
  q_volume :: real

record AnalystData =
  analystTargetPrice :: "real option"
  analystTargetPriceHigh :: "real option"
  analystTargetPriceLow :: "real option"
  analystTargetPriceMedian :: "real option"
  analystRecommendationKey :: "string option"
  analystRecommendationMean :: "real option"
  numberOfAnalystOpinions :: "real option"

record Analysis =
  symbol :: string
  analysisDate :: string
  currentPrice :: real
  priceChange :: real
  priceChangePercent :: real
  a_volume :: real
  targetPrice :: real
  confidenceScore :: int
  analysisMethod :: string
  priceRangeLow :: real
  priceRangeHigh :: real
  technicalIndicators :: "TechnicalIndicators option"
  calculations :: Calculations
  recommendation :: Recommendation
  analystData :: "AnalystData option"

record World =
  dbSeries :: "error + PriceBar list"
  refresh :: "error + unit"
  dbSeriesAfterRefresh :: "error + PriceBar list"
  latestPrice :: "error + Quote option"
  overview :: "error + AnalystData option"
  saveResult :: "error + unit"
  today :: string
  indicatorLib :: IndicatorLib

text \<open>
  The three parts of \<open>analyzeStock\<close>: \<open>loadStockData\<close> is the read with its one refresh
  (an error of the refresh or of the read after it is caught and logged),
  \<open>calculate\<close> is the object \<open>calculations\<close> with its gates on the length of the series,
  \<open>analyzeSeries\<close> is everything after the check for an empty series.
\<close>

definition loadStockData :: "World \<Rightarrow> error + PriceBar list" where
  "loadStockData w =
     (case dbSeries w of
        Inl e \<Rightarrow> Inl e
      | Inr rows \<Rightarrow>
          if length rows = 0 then
            (case refresh w of
               Inl refreshError \<Rightarrow> Inr rows
             | Inr _ \<Rightarrow>
                 (case dbSeriesAfterRefresh w of
                    Inl refreshError \<Rightarrow> Inr rows
                  | Inr rows' \<Rightarrow> Inr rows'))
          else Inr rows)"

definition calculate :: "IndicatorLib \<Rightarrow> PriceBar list \<Rightarrow> Calculations" where
  "calculate lib stockData =
     \<lparr>technical =
        (if length stockData \<ge> 50 then calculateTechnicalIndicators lib stockData else None),
      fibonacci =
        (if length stockData \<ge> 50 then Some (calculateFibonacciLevels stockData) else None),
      supportResistance =
        Some (if length stockData \<ge> 50 then findSupportResistanceLevels stockData
              else \<lparr>support = [], resistance = []\<rparr>),
      trends =
        Some (if length stockData \<ge> 200 then analyzeTrends stockData
              else \<lparr>trend = ''neutral'', movingAverages = None\<rparr>),
      volatility =
        Some (if length stockData \<ge> 20 then calculateVolatility stockData 20
              else \<lparr>standardDeviation = 0, annualizedVolatility = 0,
                    currentLevel = ''low''\<rparr>)\<rparr>"

definition analyzeSeries ::
    "string \<Rightarrow> World \<Rightarrow> PriceBar list \<Rightarrow> (error + Analysis) \<times> Analysis option" where
  "analyzeSeries stock_symbol w stockData =
     (let realTimePrice =
            (case latestPrice w of
               Inl priceError \<Rightarrow>
                 Some \<lparr>q_price = close (last stockData), change = 0,
                        changePercent = 0, q_volume = 0\<rparr>
             | Inr q \<Rightarrow> q);
          calcs = calculate (indicatorLib w) stockData
      in case calculateTargetPrice calcs stockData of
           Inl e \<Rightarrow> (Inl e, None)
         | Inr tp \<Rightarrow>
             (let confidence = calculateConfidenceScore calcs stockData;
                  analyst = (case overview w of Inl analystError \<Rightarrow> None | Inr ov \<Rightarrow> ov)
              in case realTimePrice of
                   None \<Rightarrow> (Inl TypeError, None)
                 | Some q \<Rightarrow>
                     (let analysis =
                            \<lparr>symbol = stock_symbol,
                             analysisDate = today w,
                             currentPrice = q_price q,
                             priceChange = change q,
                             priceChangePercent = changePercent q,
                             a_volume = q_volume q,
                             targetPrice = tp_price tp,
                             confidenceScore = score confidence,
                             analysisMethod = tp_method tp,
                             priceRangeLow = rangeLow tp,
                             priceRangeHigh = rangeHigh tp,
                             technicalIndicators = technical calcs,
                             calculations = calcs,
                             recommendation =
                               getRecommendation (Fin (tp_price tp)) (Fin (q_price q))
                                 (Fin (of_int (score confidence))),
                             analystData = analyst\<rparr>
                      in case saveResult w of
                           Inl e \<Rightarrow> (Inl e, Some analysis)
                         | Inr _ \<Rightarrow> (Inr analysis, Some analysis))))"

definition analyzeStock :: "string \<Rightarrow> World \<Rightarrow> (error + Analysis) \<times> Analysis option" where
  "analyzeStock stock_symbol w =
     (case loadStockData w of
        Inl e \<Rightarrow> (Inl e, None)
      | Inr stockData \<Rightarrow>
          if length stockData = 0 then (Inl NoDataAvailable, None)
          else analyzeSeries stock_symbol w stockData)"

text \<open>A concrete world: an empty table, and a refresh that fails.\<close>

definition no_lib :: IndicatorLib where
  "no_lib = \<lparr>EMA_calculate = (\<lambda>p xs. Some []), RSI_calculate = (\<lambda>p xs. Some []),
     MACD_calculate = (\<lambda>xs. Some []), BollingerBands_calculate = (\<lambda>xs. Some [])\<rparr>"

definition empty_world :: World where
  "empty_world =
     \<lparr>dbSeries = Inr [], refresh = Inl (ExternalError ''network''),
      dbSeriesAfterRefresh = Inr [bar_at 100],
      latestPrice = Inr (Some \<lparr>q_price = 100, change = 0, changePercent = 0, q_volume = 0\<rparr>),
      overview = Inr None, saveResult = Inr (), today = ''2024-01-01'', indicatorLib = no_lib\<rparr>"

section \<open>Properties of the recommendation engine\<close>

lemma jsnum_gt_trans_fin:
  "Fin a < (x::jsnum) \<Longrightarrow> b \<le> a \<Longrightarrow> Fin b < x"
  by (cases x) auto

text \<open>
  The order of the branches, with the labels the source gives the actions: delta > 10
  and confidence >= 60 first, then delta > 20 and confidence >= 40, then delta < -10 and
  confidence >= 60, then delta < -20 and confidence >= 40, else 'HOLD'. A delta above 20
  with a confidence of at least 60 is taken by the first branch, and the expected return
  is delta.
\<close>

lemma getRecommendation_branches:
  "action (getRecommendation t c s) =
     (if delta_percent t c > Fin 10 \<and> s \<ge> Fin 60 then ''BUY''
      else if delta_percent t c > Fin 20 \<and> s \<ge> Fin 40 then ''STRONG BUY''
      else if delta_percent t c < Fin (- 10) \<and> s \<ge> Fin 60 then ''SELL''
      else if delta_percent t c < Fin (- 20) \<and> s \<ge> Fin 40 then ''STRONG SELL''
      else ''HOLD'')
   \<and> (delta_percent t c > Fin 20 \<and> s \<ge> Fin 60 \<longrightarrow>
        action (getRecommendation t c s) = ''BUY'')
   \<and> expectedReturn (getRecommendation t c s) = delta_percent t c"
proof -
  have order: "delta_percent t c > Fin 20 \<Longrightarrow> delta_percent t c > Fin 10"
    by (rule jsnum_gt_trans_fin [of 20]) simp_all
  show ?thesis
    using order by (auto simp: getRecommendation_def delta_percent_def Let_def)
qed

text \<open>
  Claim C1. For every target price, current price and confidence score, with
  delta = (target - current) / current * 100, the branches are tried in this order:
  delta > 10 and confidence >= 60 gives BUY; only otherwise delta > 20 and
  confidence >= 40 gives STRONG_BUY; then delta < -10 and confidence >= 60 gives SELL;
  then delta < -20 and confidence >= 40 gives STRONG_SELL; otherwise HOLD; delta > 20
  with confidence >= 60 is BUY, and the expected return is delta. The code tries the
  branches in this order, but its second and fourth branch do not give the actions the
  claim names: at target 125, current 100 and confidence 45 (delta 25) the action is
  'STRONG BUY', not STRONG_BUY, and at target 75 (delta -25) it is 'STRONG SELL', not
  STRONG_SELL.
\<close>

theorem getRecommendation_strong_branches:
  "delta_percent (Fin 125) (Fin 100) = Fin 25
   \<and> \<not> Fin 45 \<ge> Fin 60 \<and> Fin 25 > Fin 20 \<and> Fin 45 \<ge> Fin 40
   \<and> action (getRecommendation (Fin 125) (Fin 100) (Fin 45)) = ''STRONG BUY''
   \<and> action (getRecommendation (Fin 125) (Fin 100) (Fin 45)) \<noteq> ''STRONG_BUY''
   \<and> expectedReturn (getRecommendation (Fin 125) (Fin 100) (Fin 45)) = Fin 25
   \<and> delta_percent (Fin 75) (Fin 100) = Fin (- 25)
   \<and> Fin (- 25) < Fin (- 20)
   \<and> action (getRecommendation (Fin 75) (Fin 100) (Fin 45)) = ''STRONG SELL''
   \<and> action (getRecommendation (Fin 75) (Fin 100) (Fin 45)) \<noteq> ''STRONG_SELL''"
  by (simp add: getRecommendation_def delta_percent_def minus_jsnum_def Let_def)

text \<open>
  Claim C8. The action of the returned recommendation is one of STRONG_BUY, BUY, HOLD,
  SELL, STRONG_SELL, as the data model names them. At target 130, current 100 and
  confidence 50 the analyzer answers 'STRONG BUY', written with a space, which is none of
  the five names; the page that consumes the action matches 'STRONG_BUY' and so colours
  this strong buy as a warning, where a plain BUY is coloured as a success.
\<close>

theorem getRecommendation_strong_label:
  "action (getRecommendation (Fin 130) (Fin 100) (Fin 50)) = ''STRONG BUY''
   \<and> action (getRecommendation (Fin 130) (Fin 100) (Fin 50))
       \<notin> {''STRONG_BUY'', ''BUY'', ''HOLD'', ''SELL'', ''STRONG_SELL''}
   \<and> getRecommendationColor (getRecommendation (Fin 130) (Fin 100) (Fin 50)) = ''warning''
   \<and> getRecommendationColor (getRecommendation (Fin 130) (Fin 100) (Fin 70)) = ''success''"
  by (simp add: getRecommendation_def getRecommendationColor_def minus_jsnum_def Let_def)

section \<open>Properties of the confidence scorer\<close>

lemma clamp_level:
  fixes raw :: int
  defines "r \<equiv> \<lparr>score = min 100 (max 0 raw),
          level = (if raw \<ge> 80 then ''high'' else if raw \<ge> 60 then ''medium'' else ''low'')\<rparr>"
  shows "0 \<le> score r" "score r \<le> 100"
    "level r = ''high'' \<longleftrightarrow> 80 \<le> score r"
    "level r = ''medium'' \<longleftrightarrow> 60 \<le> score r \<and> score r < 80"
    "level r = ''low'' \<longleftrightarrow> score r < 60"
  by (auto simp: r_def)

text \<open>
  Claim C4. For every combination of indicator, trend, volatility and support/resistance
  inputs and every sample size, the returned score is in [0,100]; it is exactly 0 when
  the sample size is 0; and the level is 'high' iff score >= 80, 'medium' iff
  60 <= score < 80, and 'low' otherwise.
\<close>

theorem confidence_score_range_and_level:
  "0 \<le> score (calculateConfidenceScore calcs stockData)
   \<and> score (calculateConfidenceScore calcs stockData) \<le> 100
   \<and> (length stockData = 0 \<longrightarrow> score (calculateConfidenceScore calcs stockData) = 0)
   \<and> (level (calculateConfidenceScore calcs stockData) = ''high''
        \<longleftrightarrow> 80 \<le> score (calculateConfidenceScore calcs stockData))
   \<and> (level (calculateConfidenceScore calcs stockData) = ''medium''
        \<longleftrightarrow> 60 \<le> score (calculateConfidenceScore calcs stockData)
            \<and> score (calculateConfidenceScore calcs stockData) < 80)
   \<and> (level (calculateConfidenceScore calcs stockData) = ''low''
        \<longleftrightarrow> score (calculateConfidenceScore calcs stockData) < 60)"
proof -
  have shape: "P (calculateConfidenceScore calcs stockData)"
    if "\<And>raw. P \<lparr>score = min 100 (max 0 raw),
       level = (if raw \<ge> 80 then ''high'' else if raw \<ge> 60 then ''medium'' else ''low'')\<rparr>"
    for P
    unfolding calculateConfidenceScore_def Let_def by (rule that)
  have empty: "score (calculateConfidenceScore calcs stockData) = 0"
    if "length stockData = 0"
    using that unfolding calculateConfidenceScore_def Let_def
    by (simp split del: if_split)
  have rest: "0 \<le> score (calculateConfidenceScore calcs stockData)
   \<and> score (calculateConfidenceScore calcs stockData) \<le> 100
   \<and> (level (calculateConfidenceScore calcs stockData) = ''high''
        \<longleftrightarrow> 80 \<le> score (calculateConfidenceScore calcs stockData))
   \<and> (level (calculateConfidenceScore calcs stockData) = ''medium''
        \<longleftrightarrow> 60 \<le> score (calculateConfidenceScore calcs stockData)
            \<and> score (calculateConfidenceScore calcs stockData) < 80)
   \<and> (level (calculateConfidenceScore calcs stockData) = ''low''
        \<longleftrightarrow> score (calculateConfidenceScore calcs stockData) < 60)"
    by (rule shape) (use clamp_level in simp)
  show ?thesis
    using empty rest by blast
qed

theorem confidence_score_range_and_level_witness:
  "length ([] :: PriceBar list) = 0
   \<and> score (calculateConfidenceScore
        \<lparr>technical = None, fibonacci = None,
         supportResistance = Some \<lparr>support = [\<lparr>price = 10, touches = 3, index = 2\<rparr>,
           \<lparr>price = 11, touches = 2, index = 5\<rparr>], resistance = []\<rparr>,
         trends = Some \<lparr>trend = ''uptrend'', movingAverages = None\<rparr>,
         volatility = Some \<lparr>standardDeviation = 0, annualizedVolatility = 0,
           currentLevel = ''low''\<rparr>\<rparr> []) = 0
   \<and> level (calculateConfidenceScore
        \<lparr>technical = None, fibonacci = None,
         supportResistance = Some \<lparr>support = [\<lparr>price = 10, touches = 3, index = 2\<rparr>,
           \<lparr>price = 11, touches = 2, index = 5\<rparr>], resistance = []\<rparr>,
         trends = Some \<lparr>trend = ''uptrend'', movingAverages = None\<rparr>,
         volatility = Some \<lparr>standardDeviation = 0, annualizedVolatility = 0,
           currentLevel = ''low''\<rparr>\<rparr> []) = ''low''"
  using confidence_score_range_and_level
    [of "\<lparr>technical = None, fibonacci = None,
         supportResistance = Some \<lparr>support = [\<lparr>price = 10, touches = 3, index = 2\<rparr>,
           \<lparr>price = 11, touches = 2, index = 5\<rparr>], resistance = []\<rparr>,
         trends = Some \<lparr>trend = ''uptrend'', movingAverages = None\<rparr>,
         volatility = Some \<lparr>standardDeviation = 0, annualizedVolatility = 0,
           currentLevel = ''low''\<rparr>\<rparr>" "[]"]
  by simp

section \<open>Properties of the Fibonacci levels\<close>

lemma fib_level_ends: "fib_level h l 0 = h" "fib_level h l 1 = l"
  by (simp_all add: fib_level_def)

lemma fib_level_strict: "l < h \<Longrightarrow> r < r' \<Longrightarrow> fib_level h l r' < fib_level h l r"
  by (simp add: fib_level_def)

text \<open>
  Claim C5. For every series of at least 2 bars, high is the maximum close and low the
  minimum close of the window, and each level of ratio r in 0, 0.236, 0.382, 0.5, 0.618,
  1 equals high - r * (high - low); so the 0% level is high, the 100% level is low, and
  the six levels decrease from 0% to 100% whenever high > low. For fewer than 2 bars
  the result is the all-zero structure.
\<close>

theorem fibonacci_levels:
  "(2 \<le> length stockData \<longrightarrow>
      fib_high (calculateFibonacciLevels stockData) = Max (set (map close stockData))
    \<and> fib_low (calculateFibonacciLevels stockData) = Min (set (map close stockData))
    \<and> levels (calculateFibonacciLevels stockData) ''0%''
        = Some (fib_level (fib_high (calculateFibonacciLevels stockData))
                  (fib_low (calculateFibonacciLevels stockData)) 0)
    \<and> levels (calculateFibonacciLevels stockData) ''23.6%''
        = Some (fib_level (fib_high (calculateFibonacciLevels stockData))
                  (fib_low (calculateFibonacciLevels stockData)) 0.236)
    \<and> levels (calculateFibonacciLevels stockData) ''38.2%''
        = Some (fib_level (fib_high (calculateFibonacciLevels stockData))
                  (fib_low (calculateFibonacciLevels stockData)) 0.382)
    \<and> levels (calculateFibonacciLevels stockData) ''50%''
        = Some (fib_level (fib_high (calculateFibonacciLevels stockData))
                  (fib_low (calculateFibonacciLevels stockData)) 0.5)
    \<and> levels (calculateFibonacciLevels stockData) ''61.8%''
        = Some (fib_level (fib_high (calculateFibonacciLevels stockData))
                  (fib_low (calculateFibonacciLevels stockData)) 0.618)
    \<and> levels (calculateFibonacciLevels stockData) ''100%''
        = Some (fib_level (fib_high (calculateFibonacciLevels stockData))
                  (fib_low (calculateFibonacciLevels stockData)) 1)
    \<and> levels (calculateFibonacciLevels stockData) ''0%''
        = Some (fib_high (calculateFibonacciLevels stockData))
    \<and> levels (calculateFibonacciLevels stockData) ''100%''
        = Some (fib_low (calculateFibonacciLevels stockData))
    \<and> (fib_low (calculateFibonacciLevels stockData)
          < fib_high (calculateFibonacciLevels stockData) \<longrightarrow>
         the (levels (calculateFibonacciLevels stockData) ''0%'')
           > the (levels (calculateFibonacciLevels stockData) ''23.6%'')
       \<and> the (levels (calculateFibonacciLevels stockData) ''23.6%'')
           > the (levels (calculateFibonacciLevels stockData) ''38.2%'')
       \<and> the (levels (calculateFibonacciLevels stockData) ''38.2%'')
           > the (levels (calculateFibonacciLevels stockData) ''50%'')
       \<and> the (levels (calculateFibonacciLevels stockData) ''50%'')
           > the (levels (calculateFibonacciLevels stockData) ''61.8%'')
       \<and> the (levels (calculateFibonacciLevels stockData) ''61.8%'')
           > the (levels (calculateFibonacciLevels stockData) ''100%'')))
   \<and> (length stockData < 2 \<longrightarrow>
        calculateFibonacciLevels stockData =
          \<lparr>fib_high = 0, fib_low = 0,
           levels = [''0%'' \<mapsto> 0, ''23.6%'' \<mapsto> 0, ''38.2%'' \<mapsto> 0, ''50%'' \<mapsto> 0,
                     ''61.8%'' \<mapsto> 0, ''100%'' \<mapsto> 0]\<rparr>)"
proof (cases "length stockData < 2")
  case True
  then show ?thesis by (simp add: calculateFibonacciLevels_def)
next
  case False
  define h where "h = Max (set (map close stockData))"
  define l where "l = Min (set (map close stockData))"
  have F: "calculateFibonacciLevels stockData =
      \<lparr>fib_high = h, fib_low = l,
       levels = [''0%'' \<mapsto> h, ''23.6%'' \<mapsto> h - ((h - l) * 0.236),
                 ''38.2%'' \<mapsto> h - ((h - l) * 0.382), ''50%'' \<mapsto> h - ((h - l) * 0.5),
                 ''61.8%'' \<mapsto> h - ((h - l) * 0.618), ''100%'' \<mapsto> l]\<rparr>"
    using False by (simp add: calculateFibonacciLevels_def Let_def h_def l_def)
  have dec: "h > h - ((h - l) * 0.236) \<and> h - ((h - l) * 0.236) > h - ((h - l) * 0.382)
      \<and> h - ((h - l) * 0.382) > h - ((h - l) * 0.5)
      \<and> h - ((h - l) * 0.5) > h - ((h - l) * 0.618)
      \<and> h - ((h - l) * 0.618) > l" if "l < h"
    using that by (simp add: field_simps)
  show ?thesis
    using False dec unfolding F h_def [symmetric] l_def [symmetric]
    by (simp add: fib_level_def)
qed

theorem fibonacci_levels_witness:
  "2 \<le> length [bar_at 10, bar_at 20, bar_at 15]
   \<and> fib_high (calculateFibonacciLevels [bar_at 10, bar_at 20, bar_at 15]) = 20
   \<and> fib_low (calculateFibonacciLevels [bar_at 10, bar_at 20, bar_at 15]) = 10
   \<and> levels (calculateFibonacciLevels [bar_at 10, bar_at 20, bar_at 15]) ''0%'' = Some 20
   \<and> levels (calculateFibonacciLevels [bar_at 10, bar_at 20, bar_at 15]) ''23.6%'' = Some 17.64
   \<and> levels (calculateFibonacciLevels [bar_at 10, bar_at 20, bar_at 15]) ''38.2%'' = Some 16.18
   \<and> levels (calculateFibonacciLevels [bar_at 10, bar_at 20, bar_at 15]) ''50%'' = Some 15
   \<and> levels (calculateFibonacciLevels [bar_at 10, bar_at 20, bar_at 15]) ''61.8%'' = Some 13.82
   \<and> levels (calculateFibonacciLevels [bar_at 10, bar_at 20, bar_at 15]) ''100%'' = Some 10
   \<and> length ([] :: PriceBar list) < 2
   \<and> fib_high (calculateFibonacciLevels []) = 0
   \<and> levels (calculateFibonacciLevels []) ''50%'' = Some 0"
proof -
  show ?thesis
    using fibonacci_levels [of "[bar_at 10, bar_at 20, bar_at 15]"]
      fibonacci_levels [of "[]"]
    by (simp add: fib_level_def bar_at_def)
qed

section \<open>Properties of the support and resistance levels\<close>

lemma count_touches_eq:
  "count_touches data i current j n =
     n + length (filter (\<lambda>k. k \<noteq> i \<and> \<bar>data ! k - current\<bar> < current * 0.02)
                   [j..<length data])"
proof (induction data i current j n rule: count_touches.induct)
  case (1 data i current j n)
  show ?case
  proof (cases "j < length data")
    case True
    then have "[j..<length data] = j # [j + 1..<length data]"
      by (simp add: upt_conv_Cons)
    with True "1" show ?thesis
      by (subst count_touches.simps) (auto simp: tolerance_def)
  next
    case False
    then show ?thesis
      by (subst count_touches.simps) simp
  qed
qed

lemma count_touches_touch_count:
  "count_touches data i (data ! i) 0 1 = touch_count data i"
  by (simp add: count_touches_eq touch_count_def)

lemma count_touches_touch_count_Suc:
  "count_touches data i (data ! i) 0 (Suc 0) = touch_count data i"
  using count_touches_touch_count [of data i] by simp

lemma findLevels_loop_step:
  assumes "i < length data - 2" "2 \<le> i"
  shows "findLevels_loop data 2 i found =
     findLevels_loop data 2 (i + 1)
       (if level_candidate data i \<and> 2 \<le> touch_count data i
        then found @ [\<lparr>price = data ! i, touches = touch_count data i, index = i\<rparr>]
        else found)"
  using assms
  by (subst findLevels_loop.simps)
     (auto simp: Let_def count_touches_touch_count_Suc level_candidate_def tolerance_def)

lemma findLevels_loop_eq:
  "2 \<le> i \<Longrightarrow> findLevels_loop data 2 i found =
     found @ map (\<lambda>i. \<lparr>price = data ! i, touches = touch_count data i, index = i\<rparr>)
       (filter (\<lambda>i. level_candidate data i \<and> 2 \<le> touch_count data i)
          [i..<length data - 2])"
proof (induction "length data - 2 - i" arbitrary: i found)
  case 0
  then have "\<not> i < length data - 2"
    by simp
  then show ?case
    by (subst findLevels_loop.simps) simp
next
  case (Suc n)
  then have lt: "i < length data - 2" and n: "n = length data - 2 - (i + 1)"
    by simp_all
  have up: "[i..<length data - 2] = i # [i + 1..<length data - 2]"
    using lt by (simp add: upt_conv_Cons)
  have "2 \<le> i + 1"
    using Suc.prems by simp
  note IH = Suc.hyps(1) [OF n this]
  show ?case
    unfolding findLevels_loop_step [OF lt Suc.prems] IH up by simp
qed

lemma findLevels_eq:
  "findLevels data 2 = (if length data < 5 then [] else top_levels (kept_levels data))"
  by (simp add: findLevels_def top_levels_def kept_levels_def findLevels_loop_eq)

lemma top_levels_sorted:
  "sorted_wrt (\<lambda>a b. touches a \<ge> touches b) (top_levels ls)"
proof -
  have "sorted (map (\<lambda>l. - int (touches l)) (sort_key (\<lambda>l. - int (touches l)) ls))"
    by (rule sorted_sort_key)
  then have "sorted_wrt (\<lambda>a b. touches a \<ge> touches b) (sort_key (\<lambda>l. - int (touches l)) ls)"
    by (simp add: sorted_map)
  then show ?thesis
    unfolding top_levels_def by (rule sorted_wrt_take)
qed

lemma top_levels_length: "length (top_levels ls) \<le> 5"
  by (simp add: top_levels_def)

lemma top_levels_subset: "set (top_levels ls) \<subseteq> set ls"
  unfolding top_levels_def using set_take_subset [of 5 "sort_key (\<lambda>l. - int (touches l)) ls"]
  by simp

lemma top_levels_all: "length ls \<le> 5 \<Longrightarrow> set (top_levels ls) = set ls"
  by (simp add: top_levels_def)

text \<open>
  Claim C3, as the code has it. For every series of at least 5 bars, support levels come
  from the low column and resistance levels from the high column by one heuristic: a
  point at index i (the first two and last two indices excluded) is a candidate exactly
  when it is not more than 2% above either immediate neighbour; its touch count is 1
  plus the number of points elsewhere in the series strictly within 2% of its price;
  exactly the candidates with touch count >= 2 are kept, stably sorted by touch count
  descending, and the top 5 are retained per side. For fewer than 5 bars both lists
  are empty.
\<close>

theorem support_resistance_levels:
  "findSupportResistanceLevels stockData =
     (if length stockData < 5 then \<lparr>support = [], resistance = []\<rparr>
      else \<lparr>support = top_levels (kept_levels (map low stockData)),
            resistance = top_levels (kept_levels (map high stockData))\<rparr>)
   \<and> length (support (findSupportResistanceLevels stockData)) \<le> 5
   \<and> length (resistance (findSupportResistanceLevels stockData)) \<le> 5
   \<and> sorted_wrt (\<lambda>a b. touches a \<ge> touches b) (support (findSupportResistanceLevels stockData))
   \<and> sorted_wrt (\<lambda>a b. touches a \<ge> touches b)
        (resistance (findSupportResistanceLevels stockData))
   \<and> (5 \<le> length stockData \<longrightarrow>
        set (support (findSupportResistanceLevels stockData))
          \<subseteq> set (kept_levels (map low stockData))
      \<and> set (resistance (findSupportResistanceLevels stockData))
          \<subseteq> set (kept_levels (map high stockData))
      \<and> (length (kept_levels (map low stockData)) \<le> 5 \<longrightarrow>
           set (support (findSupportResistanceLevels stockData))
             = set (kept_levels (map low stockData)))
      \<and> (length (kept_levels (map high stockData)) \<le> 5 \<longrightarrow>
           set (resistance (findSupportResistanceLevels stockData))
             = set (kept_levels (map high stockData))))"
proof -
  have eq: "findSupportResistanceLevels stockData =
     (if length stockData < 5 then \<lparr>support = [], resistance = []\<rparr>
      else \<lparr>support = top_levels (kept_levels (map low stockData)),
            resistance = top_levels (kept_levels (map high stockData))\<rparr>)"
    by (simp add: findSupportResistanceLevels_def findLevels_eq Let_def)
  show ?thesis
  proof (cases "length stockData < 5")
    case True
    then show ?thesis by (simp add: eq)
  next
    case False
    then show ?thesis
      using top_levels_sorted top_levels_length top_levels_subset top_levels_all
      by (simp add: eq)
  qed
qed

lemma kept_levels_zigzag:
  "kept_levels [50, 100, 50, 100, 50] = [\<lparr>price = 50, touches = 3, index = 2\<rparr>]"
proof -
  have r: "[2..<length [50, 100, 50, 100, 50::real] - 2] = [2]"
    by (simp add: upt_rec)
  have i: "[0..<length [50, 100, 50, 100, 50::real]] = [0, 1, 2, 3, 4]"
    by (simp add: upt_rec)
  have t: "touch_count [50, 100, 50, 100, 50] 2 = 3"
    unfolding touch_count_def i by simp
  have c: "level_candidate [50, 100, 50, 100, 50] 2"
    by (simp add: level_candidate_def)
  show ?thesis
    unfolding kept_levels_def r using t c by simp
qed

theorem support_resistance_levels_witness:
  "5 \<le> length (map bar_at [50, 100, 50, 100, 50])
   \<and> length (kept_levels (map low (map bar_at [50, 100, 50, 100, 50]))) \<le> 5
   \<and> support (findSupportResistanceLevels (map bar_at [50, 100, 50, 100, 50]))
       = [\<lparr>price = 50, touches = 3, index = 2\<rparr>]
   \<and> resistance (findSupportResistanceLevels (map bar_at [50, 100, 50, 100, 50]))
       = [\<lparr>price = 50, touches = 3, index = 2\<rparr>]
   \<and> findSupportResistanceLevels (map bar_at [50, 100, 50, 100]) = \<lparr>support = [], resistance = []\<rparr>"
proof -
  have l: "map low (map bar_at [50, 100, 50, 100, 50]) = [50, 100, 50, 100, 50]"
    and h: "map high (map bar_at [50, 100, 50, 100, 50]) = [50, 100, 50, 100, 50]"
    by (simp_all add: bar_at_def)
  show ?thesis
    using support_resistance_levels [of "map bar_at [50, 100, 50, 100, 50]"]
      support_resistance_levels [of "map bar_at [50, 100, 50, 100]"]
    unfolding l h kept_levels_zigzag
    by (simp add: top_levels_def)
qed

text \<open>
  Claim C3 as stated fails on the lows 50, 100, 50, 100, 50: the point at index 2 is
  50% below its neighbours, so not a candidate in the claim's words, and two points
  elsewhere are within 2% of it; the code returns it as a support level with 3 touches.
\<close>

theorem support_resistance_levels_counterexample:
  "support (findSupportResistanceLevels (map bar_at [50, 100, 50, 100, 50]))
     = [\<lparr>price = 50, touches = 3, index = 2\<rparr>]
   \<and> \<not> spec_candidate (map low (map bar_at [50, 100, 50, 100, 50])) 2
   \<and> spec_touch_count (map low (map bar_at [50, 100, 50, 100, 50])) 2 = 2"
proof -
  have l: "map low (map bar_at [50, 100, 50, 100, 50]) = [50, 100, 50, 100, 50]"
    by (simp add: bar_at_def)
  have i: "[0..<length [50, 100, 50, 100, 50::real]] = [0, 1, 2, 3, 4]"
    by (simp add: upt_rec)
  have s: "support (findSupportResistanceLevels (map bar_at [50, 100, 50, 100, 50]))
     = [\<lparr>price = 50, touches = 3, index = 2\<rparr>]"
    by (simp add: findSupportResistanceLevels_def findLevels_eq bar_at_def kept_levels_zigzag
        top_levels_def Let_def)
  have t: "spec_touch_count [50, 100, 50, 100, 50] 2 = 2"
    unfolding spec_touch_count_def i by simp
  show ?thesis
    unfolding l using s t by (simp add: spec_candidate_def)
qed

section \<open>Properties of the volatility classifier\<close>

lemma foldl_add_sum_list:
  fixes f :: "real \<Rightarrow> real"
  shows "foldl (\<lambda>a b. a + f b) s xs = s + sum_list (map f xs)"
  by (induction xs arbitrary: s) simp_all

lemma index_returns_log_returns:
  "map (\<lambda>i. ln (cs ! i / cs ! (i - 1))) [1..<length cs] = log_returns cs"
proof (rule nth_equalityI)
  show "length (map (\<lambda>i. ln (cs ! i / cs ! (i - 1))) [1..<length cs]) = length (log_returns cs)"
    by (simp add: log_returns_def)
next
  fix k
  assume "k < length (map (\<lambda>i. ln (cs ! i / cs ! (i - 1))) [1..<length cs])"
  then have k: "k < length cs - 1"
    by simp
  then show "map (\<lambda>i. ln (cs ! i / cs ! (i - 1))) [1..<length cs] ! k = log_returns cs ! k"
    by (simp add: log_returns_def nth_tl)
qed

lemma calculateVolatility_std:
  assumes "2 \<le> length stockData"
  shows "calculateVolatility stockData 20 =
     \<lparr>standardDeviation = population_std (log_returns (recent_closes 20 stockData)),
      annualizedVolatility = population_std (log_returns (recent_closes 20 stockData)) * sqrt 252,
      currentLevel =
        volatility_tier (population_std (log_returns (recent_closes 20 stockData)) * sqrt 252)\<rparr>"
proof -
  have p: "min 20 (length stockData) \<noteq> 0"
    using assms by (cases stockData) simp_all
  have c: "map close (slice_last (min 20 (length stockData)) stockData) = recent_closes 20 stockData"
    using p by (simp add: slice_last_def recent_closes_def)
  have l: "\<not> length (recent_closes 20 stockData) < 2"
    using assms by (simp add: recent_closes_def)
  have sum: "foldl (\<lambda>a b. a + b) 0 xs = sum_list xs" for xs :: "real list"
    using foldl_add_sum_list [of "\<lambda>x. x" 0 xs] by simp
  have sq: "foldl (\<lambda>a b. a + (b - m)\<^sup>2) 0 xs = sum_list (map (\<lambda>x. (x - m)\<^sup>2) xs)"
    for xs :: "real list" and m
    using foldl_add_sum_list [of "\<lambda>x. (x - m)\<^sup>2" 0 xs] by simp
  have "calculateVolatility stockData 20 =
      \<lparr>standardDeviation = population_std (log_returns (recent_closes 20 stockData)),
       annualizedVolatility = population_std (log_returns (recent_closes 20 stockData)) * sqrt 252,
       currentLevel =
         (if population_std (log_returns (recent_closes 20 stockData)) * sqrt 252 > 0.25
          then ''high''
          else if population_std (log_returns (recent_closes 20 stockData)) * sqrt 252 > 0.15
          then ''medium'' else ''low'')\<rparr>"
    unfolding calculateVolatility_def Let_def c index_returns_log_returns sum sq
      population_std_def mean_of_def
    using assms l by simp
  then show ?thesis
    by (simp add: volatility_tier_def)
qed

text \<open>
  Claim C6, as the code has it. For every series of at least 2 bars, the classifier uses
  the min(20, length) most recent closes, computes the log returns between consecutive
  closes, takes the population standard deviation of those returns (it divides by the
  number of returns), annualizes it by multiplying by the square root of 252, and tiers
  the result as 'high' when > 0.25, 'medium' when > 0.15, else 'low'; for fewer than 2
  bars it returns standard deviation 0, annualized volatility 0 and level 'low'.
\<close>

theorem volatility_population_std:
  "(2 \<le> length stockData \<longrightarrow>
      length (recent_closes 20 stockData) = min 20 (length stockData)
    \<and> standardDeviation (calculateVolatility stockData 20)
        = population_std (log_returns (recent_closes 20 stockData))
    \<and> annualizedVolatility (calculateVolatility stockData 20)
        = population_std (log_returns (recent_closes 20 stockData)) * sqrt 252
    \<and> currentLevel (calculateVolatility stockData 20)
        = (if annualizedVolatility (calculateVolatility stockData 20) > 0.25 then ''high''
           else if annualizedVolatility (calculateVolatility stockData 20) > 0.15 then ''medium''
           else ''low''))
   \<and> (length stockData < 2 \<longrightarrow>
        calculateVolatility stockData 20 =
          \<lparr>standardDeviation = 0, annualizedVolatility = 0, currentLevel = ''low''\<rparr>)"
proof (cases "length stockData < 2")
  case True
  then show ?thesis
    by (simp add: calculateVolatility_def)
next
  case False
  then have "2 \<le> length stockData"
    by simp
  from calculateVolatility_std [OF this] False show ?thesis
    by (simp add: volatility_tier_def recent_closes_def)
qed

lemma ln2_pos: "0 < ln (2::real)"
  by simp

lemma recent_closes_three:
  "recent_closes 20 (map bar_at [1, 2, 2]) = [1, 2, 2]"
  by (simp add: recent_closes_def bar_at_def)

lemma log_returns_three: "log_returns [1, 2, 2] = [ln 2, 0]"
  by (simp add: log_returns_def)

lemma population_std_three: "population_std [ln 2, 0] = ln 2 / 2"
proof -
  have "sum_list (map (\<lambda>x. (x - mean_of [ln 2, 0])\<^sup>2) [ln 2, 0]) / real (length [ln 2, 0::real])
      = (ln 2 / 2)\<^sup>2"
    by (simp add: mean_of_def power2_eq_square field_simps)
  then have "population_std [ln 2, 0] = sqrt ((ln 2 / 2)\<^sup>2)"
    unfolding population_std_def by simp
  also have "\<dots> = ln 2 / 2"
    using ln2_pos by simp
  finally show ?thesis .
qed

lemma sample_std_three: "sample_std [ln 2, 0] = ln 2 / sqrt 2"
proof -
  have "sum_list (map (\<lambda>x. (x - mean_of [ln 2, 0])\<^sup>2) [ln 2, 0])
          / real (length [ln 2, 0::real] - 1)
      = (ln 2)\<^sup>2 / 2"
    by (simp add: mean_of_def power2_eq_square field_simps)
  then have "sample_std [ln 2, 0] = sqrt ((ln 2)\<^sup>2 / 2)"
    unfolding sample_std_def by simp
  also have "\<dots> = ln 2 / sqrt 2"
    using ln2_pos by (simp add: real_sqrt_divide)
  finally show ?thesis .
qed

theorem volatility_population_std_witness:
  "2 \<le> length (map bar_at [1, 2, 2])
   \<and> standardDeviation (calculateVolatility (map bar_at [1, 2, 2]) 20) = ln 2 / 2
   \<and> annualizedVolatility (calculateVolatility (map bar_at [1, 2, 2]) 20) = ln 2 / 2 * sqrt 252
   \<and> length ([] :: PriceBar list) < 2
   \<and> calculateVolatility [] 20 =
        \<lparr>standardDeviation = 0, annualizedVolatility = 0, currentLevel = ''low''\<rparr>"
  using volatility_population_std [of "map bar_at [1, 2, 2]"] volatility_population_std [of "[]"]
  unfolding recent_closes_three log_returns_three population_std_three
  by simp

text \<open>
  Claim C6 as stated asks for the sample standard deviation. On the closes 1, 2, 2 the
  returns are ln 2 and 0; the code answers ln 2 / 2, their population standard
  deviation, and the sample standard deviation is ln 2 / sqrt 2.
\<close>

theorem volatility_sample_std_counterexample:
  "standardDeviation (calculateVolatility (map bar_at [1, 2, 2]) 20) = ln 2 / 2
   \<and> sample_std (log_returns (recent_closes 20 (map bar_at [1, 2, 2]))) = ln 2 / sqrt 2
   \<and> standardDeviation (calculateVolatility (map bar_at [1, 2, 2]) 20)
       \<noteq> sample_std (log_returns (recent_closes 20 (map bar_at [1, 2, 2])))"
proof -
  have "2 \<le> length (map bar_at [1, 2, 2])"
    by simp
  from calculateVolatility_std [OF this]
  have a: "standardDeviation (calculateVolatility (map bar_at [1, 2, 2]) 20) = ln 2 / 2"
    unfolding recent_closes_three log_returns_three population_std_three by simp
  have b: "sample_std (log_returns (recent_closes 20 (map bar_at [1, 2, 2]))) = ln 2 / sqrt 2"
    unfolding recent_closes_three log_returns_three by (rule sample_std_three)
  have "sqrt 2 \<noteq> (2::real)"
  proof
    assume "sqrt 2 = (2::real)"
    then have "(sqrt 2)\<^sup>2 = (2::real)\<^sup>2" by simp
    then show False by simp
  qed
  then have c: "ln 2 / 2 \<noteq> ln 2 / sqrt (2::real)"
    using ln2_pos by (simp add: field_simps)
  show ?thesis
    unfolding a b using c by simp
qed

section \<open>Properties of the target price synthesizer\<close>





























section \<open>Properties of the ADX\<close>

lemma num_of_nat_jsnum: "(num_of_nat n :: jsnum) = Fin (real n)"
  by (induction n) (simp_all add: num_of_nat_def zero_jsnum_def one_jsnum_def)

lemma num_of_nat_real: "(num_of_nat n :: real) = real n"
  by (induction n) (simp_all add: num_of_nat_def)


lemma nonneg_plus: "nonneg_or_nan x \<Longrightarrow> nonneg_or_nan y \<Longrightarrow> nonneg_or_nan (x + y)"
  by (cases x; cases y) simp_all

lemma nonneg_divide: "nonneg_or_nan x \<Longrightarrow> nonneg_or_nan y \<Longrightarrow> nonneg_or_nan (x / y)"
  by (cases x; cases y) simp_all

lemma nonneg_times_100: "nonneg_or_nan x \<Longrightarrow> nonneg_or_nan (x * Fin 100)"
  by (cases x) simp_all

lemma nonneg_abs: "nonneg_or_nan \<bar>x :: jsnum\<bar>"
  by (cases x) simp_all

lemma nonneg_max: "nonneg_or_nan x \<Longrightarrow> nonneg_or_nan y \<Longrightarrow> nonneg_or_nan (Math_max2 x y)"
  by (cases x; cases y) simp_all

lemma nonneg_positive: "(0::jsnum) < x \<Longrightarrow> nonneg_or_nan x"
  by (cases x) (simp_all add: zero_jsnum_def)

lemma nonneg_zero: "nonneg_or_nan (0::jsnum)"
  by (simp add: zero_jsnum_def)

lemma nonneg_foldl:
  "nonneg_or_nan a \<Longrightarrow> \<forall>x\<in>set xs. nonneg_or_nan x
     \<Longrightarrow> nonneg_or_nan (foldl (\<lambda>a b. a + b) a xs)"
  by (induction xs arbitrary: a) (simp_all add: nonneg_plus)

lemma nonneg_elem: "\<forall>x\<in>set xs. nonneg_or_nan x \<Longrightarrow> nonneg_or_nan (elem xs i)"
  by (simp add: elem_def)

lemma nonneg_calculateSMA:
  assumes "\<forall>x\<in>set xs. nonneg_or_nan x"
  shows "\<forall>y\<in>set (calculateSMA xs period). nonneg_or_nan y"
proof -
  have "nonneg_or_nan (foldl (\<lambda>a b. a + b) 0 (take period (drop k xs)) / num_of_nat period)"
    for k
  proof (rule nonneg_divide)
    have "\<forall>x\<in>set (take period (drop k xs)). nonneg_or_nan x"
      using assms by (meson in_set_dropD in_set_takeD)
    then show "nonneg_or_nan (foldl (\<lambda>a b. a + b) 0 (take period (drop k xs)))"
      by (rule nonneg_foldl [OF nonneg_zero])
    show "nonneg_or_nan (num_of_nat period :: jsnum)"
      by (simp add: num_of_nat_jsnum)
  qed
  then show ?thesis
    by (auto simp: calculateSMA_def)
qed

lemma nonneg_trueRange: "\<forall>x\<in>set (adx_trueRange highs lows closes). nonneg_or_nan x"
  by (auto simp: adx_trueRange_def Let_def intro!: nonneg_max nonneg_abs)

lemma nonneg_plusDM: "\<forall>x\<in>set (adx_plusDM highs lows). nonneg_or_nan x"
  by (auto simp: adx_plusDM_def Let_def nonneg_zero nonneg_positive)

lemma nonneg_minusDM: "\<forall>x\<in>set (adx_minusDM highs lows). nonneg_or_nan x"
  by (auto simp: adx_minusDM_def Let_def nonneg_zero nonneg_positive)

lemma nonneg_atr: "nonneg_or_nan (elem (adx_atr highs lows closes period) i)"
  unfolding adx_atr_def
  by (rule nonneg_elem) (rule nonneg_calculateSMA [OF nonneg_trueRange])

lemma nonneg_plusDI: "\<forall>x\<in>set (adx_plusDI highs lows closes period). nonneg_or_nan x"
proof -
  have "nonneg_or_nan ((dm * Fin 100) / elem (adx_atr highs lows closes period) i)"
    if "dm \<in> set (calculateSMA (adx_plusDM highs lows) period)" for dm i
    using that nonneg_calculateSMA [OF nonneg_plusDM, of highs lows period]
    by (intro nonneg_divide nonneg_times_100 nonneg_atr) simp
  then show ?thesis
    by (auto simp: adx_plusDI_def in_set_enumerate_eq)
qed

lemma nonneg_minusDI: "\<forall>x\<in>set (adx_minusDI highs lows closes period). nonneg_or_nan x"
proof -
  have "nonneg_or_nan ((dm * Fin 100) / elem (adx_atr highs lows closes period) i)"
    if "dm \<in> set (calculateSMA (adx_minusDM highs lows) period)" for dm i
    using that nonneg_calculateSMA [OF nonneg_minusDM, of highs lows period]
    by (intro nonneg_divide nonneg_times_100 nonneg_atr) simp
  then show ?thesis
    by (auto simp: adx_minusDI_def in_set_enumerate_eq)
qed

lemma nonneg_sum_zero:
  "nonneg_or_nan x \<Longrightarrow> nonneg_or_nan y \<Longrightarrow> x + y = Fin 0 \<Longrightarrow> x = Fin 0 \<and> y = Fin 0"
  by (cases x; cases y) auto

lemma length_calculateSMA: "length (calculateSMA xs period) = length xs - (period - 1)"
  by (simp add: calculateSMA_def)

lemma length_DI:
  "length (adx_plusDI highs lows closes period) = length highs - 1 - (period - 1)"
  "length (adx_minusDI highs lows closes period) = length highs - 1 - (period - 1)"
  "length (adx_dx highs lows closes period) = length highs - 1 - (period - 1)"
  by (simp_all add: adx_dx_def adx_plusDI_def adx_minusDI_def length_calculateSMA
      adx_plusDM_def adx_minusDM_def)

lemma dx_nth:
  assumes "i < length (adx_dx highs lows closes period)"
  shows "adx_dx highs lows closes period ! i =
     \<bar>adx_plusDI highs lows closes period ! i - adx_minusDI highs lows closes period ! i\<bar>
       / (adx_plusDI highs lows closes period ! i + adx_minusDI highs lows closes period ! i)
       * Fin 100"
proof -
  have i: "i < length (adx_plusDI highs lows closes period)"
    "i < length (adx_minusDI highs lows closes period)"
    using assms by (simp_all add: length_DI)
  show ?thesis
    using i by (simp add: adx_dx_def nth_enumerate_eq elem_def)
qed

lemma dx_NaN:
  assumes "i < length (adx_dx highs lows closes period)"
    and "adx_plusDI highs lows closes period ! i + adx_minusDI highs lows closes period ! i = Fin 0"
  shows "adx_dx highs lows closes period ! i = NaN"
proof -
  have i: "i < length (adx_plusDI highs lows closes period)"
    "i < length (adx_minusDI highs lows closes period)"
    using assms(1) by (simp_all add: length_DI)
  have "adx_plusDI highs lows closes period ! i \<in> set (adx_plusDI highs lows closes period)"
    "adx_minusDI highs lows closes period ! i \<in> set (adx_minusDI highs lows closes period)"
    by (rule nth_mem [OF i(1)], rule nth_mem [OF i(2)])
  then have "nonneg_or_nan (adx_plusDI highs lows closes period ! i)"
    "nonneg_or_nan (adx_minusDI highs lows closes period ! i)"
    using nonneg_plusDI nonneg_minusDI by blast+
  from nonneg_sum_zero [OF this assms(2)]
  have z: "adx_plusDI highs lows closes period ! i = Fin 0"
    "adx_minusDI highs lows closes period ! i = Fin 0"
    by simp_all
  show ?thesis
    unfolding dx_nth [OF assms(1)] z by (simp add: minus_jsnum_def)
qed

lemma foldl_NaN_start: "foldl (\<lambda>a b. a + b) NaN xs = (NaN :: jsnum)"
  by (induction xs) simp_all

lemma foldl_NaN: "NaN \<in> set xs \<Longrightarrow> foldl (\<lambda>a b. a + b) a xs = (NaN :: jsnum)"
proof (induction xs arbitrary: a)
  case Nil
  then show ?case by simp
next
  case (Cons x xs)
  show ?case
  proof (cases "x = NaN")
    case True
    have "a + NaN = NaN" by (cases a) simp_all
    then show ?thesis using True by (simp add: foldl_NaN_start)
  next
    case False
    then show ?thesis using Cons by simp
  qed
qed

lemma calculateSMA_nth:
  assumes "0 < period" "k < length (calculateSMA xs period)"
  shows "calculateSMA xs period ! k =
     foldl (\<lambda>a b. a + b) 0 (take period (drop k xs)) / num_of_nat period"
proof -
  have "k < length xs - (period - 1)"
    using assms(2) by (simp add: length_calculateSMA)
  then show ?thesis
    using assms(1) by (simp add: calculateSMA_def)
qed

lemma window_member:
  assumes "i < length xs" "k \<le> i" "i < k + period"
  shows "xs ! i \<in> set (take period (drop k xs))"
proof -
  have "i - k < length (take period (drop k xs))"
    using assms by auto
  moreover have "take period (drop k xs) ! (i - k) = xs ! i"
    using assms by simp
  ultimately show ?thesis
    by (metis nth_mem)
qed

lemma calculateSMA_NaN:
  assumes "0 < period" "k < length (calculateSMA xs period)"
    "i < length xs" "k \<le> i" "i < k + period" "xs ! i = NaN"
  shows "calculateSMA xs period ! k = NaN"
proof -
  have "NaN \<in> set (take period (drop k xs))"
    using window_member [OF assms(3,4,5)] assms(6) by simp
  then have "foldl (\<lambda>a b. a + b) 0 (take period (drop k xs)) = NaN"
    by (rule foldl_NaN)
  then show ?thesis
    unfolding calculateSMA_nth [OF assms(1,2)] by simp
qed

text \<open>
  Whenever the divisor +DI + -DI of a bar is 0, both directional indicators are 0 and
  the DX value of that bar is the quotient 0/0, which is NaN; every ADX value whose
  window of 14 DX values contains that bar is NaN as well.
\<close>

lemma adx_zero_divisor_is_NaN:
  assumes "i < length (adx_dx highs lows closes 14)"
    and "adx_plusDI highs lows closes 14 ! i + adx_minusDI highs lows closes 14 ! i = Fin 0"
  shows "adx_dx highs lows closes 14 ! i = NaN
    \<and> (\<forall>k < length (calculateADX highs lows closes 14).
          k \<le> i \<and> i < k + 14 \<longrightarrow> calculateADX highs lows closes 14 ! k = NaN)"
proof -
  have d: "adx_dx highs lows closes 14 ! i = NaN"
    using assms by (rule dx_NaN)
  have "calculateADX highs lows closes 14 ! k = NaN"
    if "k < length (calculateADX highs lows closes 14)" "k \<le> i" "i < k + 14" for k
    using that assms(1) d unfolding calculateADX_def
    by (intro calculateSMA_NaN [where i = i]) simp_all
  with d show ?thesis
    by blast
qed

text \<open>
  Claim C2. In the ADX(14) computation, for every series of at least 14 bars, when the
  divisor +DI + -DI is 0 for a bar, the DX value of that bar is the sentinel 0, not
  NaN, and no ADX value contains a NaN or an infinity from this division. The code has
  no such guard: on a series whose highs are all 101, lows all 99 and closes all 100,
  both directional indicators are 0 and the DX value is NaN (15 bars), and with 28 bars
  the one ADX value is NaN.
\<close>

theorem adx_flat_range_is_NaN:
  "adx_plusDI (replicate 15 (Fin 101)) (replicate 15 (Fin 99)) (replicate 15 (Fin 100)) 14
     = [Fin 0]
   \<and> adx_minusDI (replicate 15 (Fin 101)) (replicate 15 (Fin 99)) (replicate 15 (Fin 100)) 14
     = [Fin 0]
   \<and> adx_dx (replicate 15 (Fin 101)) (replicate 15 (Fin 99)) (replicate 15 (Fin 100)) 14
     = [NaN]
   \<and> calculateADX (replicate 28 (Fin 101)) (replicate 28 (Fin 99)) (replicate 28 (Fin 100)) 14
     = [NaN]"
  by code_simp

section \<open>Properties of the analysis orchestrator\<close>

lemma loadStockData_empty:
  assumes "dbSeries w = Inr []"
    and "isl (refresh w) \<or> isl (dbSeriesAfterRefresh w) \<or> dbSeriesAfterRefresh w = Inr []"
  shows "loadStockData w = Inr []"
  using assms by (auto simp: loadStockData_def isl_def split: sum.splits)

text \<open>
  Claim C7. For every invocation of the orchestrator on an empty price series (the
  table has no bar for the symbol, and the one refresh fails or leaves it empty), the
  operation fails with the error of no available data; no analysis is returned and none
  is saved.
\<close>

theorem analyzeStock_no_data:
  assumes "dbSeries w = Inr []"
    and "isl (refresh w) \<or> isl (dbSeriesAfterRefresh w) \<or> dbSeriesAfterRefresh w = Inr []"
  shows "analyzeStock stock_symbol w = (Inl NoDataAvailable, None)"
  by (simp add: analyzeStock_def loadStockData_empty [OF assms])

theorem analyzeStock_no_data_witness:
  "dbSeries empty_world = Inr [] \<and> isl (refresh empty_world)
   \<and> analyzeStock ''ACME'' empty_world = (Inl NoDataAvailable, None)"
proof -
  have a: "dbSeries empty_world = Inr []" "isl (refresh empty_world)"
    by (simp_all add: empty_world_def)
  from a(2) have b: "isl (refresh empty_world) \<or> isl (dbSeriesAfterRefresh empty_world)
      \<or> dbSeriesAfterRefresh empty_world = Inr []"
    by simp
  show ?thesis
    using analyzeStock_no_data [OF a(1) b] a by simp
qed

end
